theory Spec2Isabelle
  imports Main "HOL-Library.Multiset"
begin

section \<open>Data model\<close>

text \<open>
  The converter of \<^verbatim>\<open>src/src/App.js\<close> works on the object that \<^verbatim>\<open>JSON.parse\<close>
  returns. The fields it reads are modelled with the types the schema documents give them:
  strings are \<^typ>\<open>string\<close> (ASCII text), an absent field is \<^const>\<open>None\<close>.

  \<^verbatim>\<open>maximum\<close> and \<^verbatim>\<open>multipleOf\<close> are JSON numbers or numeric strings. The code only
  ever looks at their truthiness and at the text \<^verbatim>\<open>toString()\<close> returns, so a JSON number
  is carried by that text (\<^verbatim>\<open>Number.prototype.toString\<close> belongs to the JavaScript
  runtime, not to the repository): \<^verbatim>\<open>0.01\<close> is \<open>JNumber ''0.01''\<close>, \<^verbatim>\<open>1e21\<close> is
  \<open>JNumber ''1e+21''\<close>, and both zeros are \<open>JNumber ''0''\<close>.
\<close>

datatype json_value = JNumber string | JString string

record property =
  ptype :: "string option"
  format :: "string option"
  maximum :: "json_value option"
  multipleOf :: "json_value option"
  x_position :: "int option"
  x_dateTimeFormat :: "string option"
  description :: "string option"

text \<open>
  \<open>properties\<close> is the object's entry list in the order \<^verbatim>\<open>Object.entries\<close> enumerates it,
  which for names that are not array indices is the order of the JSON text.
\<close>

record schema =
  title :: "string option"
  schema_description :: "string option"
  properties :: "(string \<times> property) list option"
  required :: "string list option"

text \<open>The component's React state.\<close>

record app_state =
  jsonInput :: string
  sqlOutput :: string
  tableName :: string
  error :: string
  silverSql :: string

section \<open>JavaScript primitives used by the converter\<close>

text \<open>
  Truthiness of \<^verbatim>\<open>maximum\<close> and \<^verbatim>\<open>multipleOf\<close>: \<^verbatim>\<open>undefined\<close>, \<^verbatim>\<open>0\<close> and the empty string
  are falsy.
\<close>

fun truthy :: "json_value option \<Rightarrow> bool" where
  "truthy None = False"
| "truthy (Some (JNumber s)) = (s \<noteq> ''0'')"
| "truthy (Some (JString s)) = (s \<noteq> [])"

fun toString :: "json_value \<Rightarrow> string" where
  "toString (JNumber s) = s"
| "toString (JString s) = s"

text \<open>\<^verbatim>\<open>s.includes(t)\<close>\<close>

fun js_includes :: "string \<Rightarrow> string \<Rightarrow> bool" where
  "js_includes [] t = (t = [])"
| "js_includes (c # cs) t = (take (length t) (c # cs) = t \<or> js_includes cs t)"

text \<open>\<^verbatim>\<open>s.split(c)\<close> for a separator of one character\<close>

fun split :: "char \<Rightarrow> string \<Rightarrow> string list" where
  "split c [] = [] # []"
| "split c (x # xs) =
     (if x = c then [] # split c xs
      else (case split c xs of p # ps \<Rightarrow> (x # p) # ps | [] \<Rightarrow> [x] # []))"

text \<open>\<^verbatim>\<open>xs[i]\<close>, \<^verbatim>\<open>undefined\<close> out of range\<close>

definition at :: "'a list \<Rightarrow> nat \<Rightarrow> 'a option" where
  "at xs i = (if i < length xs then Some (xs ! i) else None)"

text \<open>\<^verbatim>\<open>s.replace(c, r)\<close> with a one-character string pattern: the first occurrence only\<close>

fun replace :: "char \<Rightarrow> string \<Rightarrow> string \<Rightarrow> string" where
  "replace c r [] = []"
| "replace c r (x # xs) = (if x = c then r @ xs else x # replace c r xs)"

text \<open>\<^verbatim>\<open>xs.join(sep)\<close>\<close>

fun join :: "string \<Rightarrow> string list \<Rightarrow> string" where
  "join sep [] = []"
| "join sep [x] = x"
| "join sep (x # y # ys) = x @ sep @ join sep (y # ys)"

definition is_space :: "char \<Rightarrow> bool" where
  "is_space c = (c \<in> set [CHR 0x09, CHR 0x0A, CHR 0x0B, CHR 0x0C, CHR 0x0D, CHR '' ''])"

definition is_digit :: "char \<Rightarrow> bool" where
  "is_digit c = (c \<in> set ''0123456789'')"

text \<open>
  \<^verbatim>\<open>parseInt(s)\<close> without a radix: leading white space, an optional sign, an optional
  \<^verbatim>\<open>0x\<close> prefix, then the longest run of digits; \<^verbatim>\<open>NaN\<close> (here \<^const>\<open>None\<close>) when that
  run is empty.
\<close>

definition digit_of :: "nat \<Rightarrow> char \<Rightarrow> nat option" where
  "digit_of radix c =
     (case map_of (zip ''0123456789abcdef'' [0 ..< 16] @ zip ''ABCDEF'' [10 ..< 16]) c of
        None \<Rightarrow> None
      | Some d \<Rightarrow> if d < radix then Some d else None)"

fun digits_value :: "nat \<Rightarrow> nat \<Rightarrow> string \<Rightarrow> nat" where
  "digits_value radix acc [] = acc"
| "digits_value radix acc (c # cs) =
     (case digit_of radix c of
        None \<Rightarrow> acc
      | Some d \<Rightarrow> digits_value radix (acc * radix + d) cs)"

definition parseInt :: "string \<Rightarrow> int option" where
  "parseInt s =
     (let t = dropWhile is_space s;
          negative = (take 1 t = ''-'');
          u = (if take 1 t = ''-'' \<or> take 1 t = ''+'' then drop 1 t else t);
          radix = (if take 2 u = ''0x'' \<or> take 2 u = ''0X'' then 16 else 10);
          v = (if radix = 16 then drop 2 u else u)
      in if takeWhile (\<lambda>c. digit_of radix c \<noteq> None) v = [] then None
         else Some ((if negative then - 1 else 1) * int (digits_value radix 0 v)))"

text \<open>A non-negative integer in a template literal: its decimal digits.\<close>

fun string_of_nat :: "nat \<Rightarrow> string" where
  "string_of_nat n =
     (if n < 10 then [''0123456789'' ! n]
      else string_of_nat (n div 10) @ [''0123456789'' ! (n mod 10)])"

declare string_of_nat.simps [simp del]

text \<open>A number that may be \<^verbatim>\<open>NaN\<close> in a template literal.\<close>

definition string_of_number :: "int option \<Rightarrow> string" where
  "string_of_number v =
     (case v of None \<Rightarrow> ''NaN''
      | Some i \<Rightarrow> (if i < 0 then ''-'' else []) @ string_of_nat (nat \<bar>i\<bar>))"

text \<open>\<^verbatim>\<open>toUpperCase\<close>, \<^verbatim>\<open>toLowerCase\<close> on ASCII text\<close>

definition toUpperCase :: "string \<Rightarrow> string" where
  "toUpperCase =
     map (\<lambda>c. case map_of (zip ''abcdefghijklmnopqrstuvwxyz'' ''ABCDEFGHIJKLMNOPQRSTUVWXYZ'') c of
                 None \<Rightarrow> c | Some u \<Rightarrow> u)"

definition toLowerCase :: "string \<Rightarrow> string" where
  "toLowerCase =
     map (\<lambda>c. case map_of (zip ''ABCDEFGHIJKLMNOPQRSTUVWXYZ'' ''abcdefghijklmnopqrstuvwxyz'') c of
                 None \<Rightarrow> c | Some l \<Rightarrow> l)"

text \<open>\<^verbatim>\<open>s.replace(/\s+/g, '_')\<close>: every maximal run of white space becomes one underscore\<close>

fun replace_spaces_from :: "bool \<Rightarrow> string \<Rightarrow> string" where
  "replace_spaces_from in_run [] = []"
| "replace_spaces_from in_run (c # cs) =
     (if is_space c then
        (if in_run then replace_spaces_from True cs
         else CHR ''_'' # replace_spaces_from True cs)
      else c # replace_spaces_from False cs)"

definition replace_spaces :: "string \<Rightarrow> string" where
  "replace_spaces s = replace_spaces_from False s"

section \<open>Type mapping\<close>

text \<open>
  \<^verbatim>\<open>multipleOf && multipleOf.toString().includes('.')\<close>, and the same test on
  \<^verbatim>\<open>maximum\<close>.
\<close>

definition has_point :: "json_value option \<Rightarrow> bool" where
  "has_point v =
     (case v of None \<Rightarrow> False | Some x \<Rightarrow> truthy v \<and> js_includes (toString x) ''.'')"

text \<open>\<^verbatim>\<open>x.toString().split('.')[1]?.length || 0\<close>\<close>

definition fraction_length :: "json_value option \<Rightarrow> nat" where
  "fraction_length v =
     (case v of None \<Rightarrow> 0
      | Some x \<Rightarrow> (case at (split (CHR ''.'') (toString x)) 1 of None \<Rightarrow> 0 | Some p \<Rightarrow> length p))"

text \<open>
  The precision computed inside \<^verbatim>\<open>if (hasDecimals)\<close>, before the clamp. The run-time value
  is a double; the sum is only used through \<^verbatim>\<open>Math.min(precision, 38)\<close>, which a double
  and the exact integer decide alike. With \<^verbatim>\<open>includes('e')\<close> true the split has at least
  two pieces, so the last case below is never taken.
\<close>

definition precision_of :: "json_value option \<Rightarrow> int option" where
  "precision_of maximum' =
     (case maximum' of
        None \<Rightarrow> Some 38
      | Some m \<Rightarrow>
          if truthy maximum' then
            (let maxStr = replace (CHR ''E'') ''e'' (toString m) in
               if js_includes maxStr ''e'' then
                 (case split (CHR ''e'') maxStr of
                    mantissa # exponent # _ \<Rightarrow>
                      (case parseInt exponent of
                         None \<Rightarrow> None
                       | Some exp \<Rightarrow>
                           Some (\<bar>exp\<bar> + int (length (replace (CHR ''-'') [] (replace (CHR ''.'') [] mantissa)))))
                  | _ \<Rightarrow> None)
               else Some (int (length (replace (CHR ''-'') [] (replace (CHR ''.'') [] maxStr)))))
          else Some 38)"

definition number_type :: "json_value option \<Rightarrow> json_value option \<Rightarrow> string" where
  "number_type maximum' multipleOf' =
     (let (hasDecimals, scale) =
            (if has_point multipleOf' then (True, fraction_length multipleOf') else (False, 0));
          (hasDecimals, scale) =
            (if \<not> hasDecimals \<and> has_point maximum' then (True, fraction_length maximum')
             else (hasDecimals, scale))
      in if hasDecimals then
           (let precision = map_option (min 38) (precision_of maximum')
            in ''NUMBER('' @ string_of_number precision @ '', '' @ string_of_nat scale @ '')'')
         else ''NUMBER'')"

definition mapM3TypeToSnowflake :: "property \<Rightarrow> string" where
  "mapM3TypeToSnowflake p =
     (if format p = Some ''date-time'' then ''DATETIME''
      else if x_dateTimeFormat p = Some ''epoch-millis'' then ''NUMBER''
      else if ptype p = Some ''boolean'' then ''BOOLEAN''
      else if ptype p = Some ''integer'' then ''INTEGER''
      else if ptype p = Some ''number'' then number_type (maximum p) (multipleOf p)
      else if ptype p = Some ''string'' then ''STRING''
      else if ptype p = Some ''object'' then ''STRING''
      else ''STRING'')"

section \<open>Column order\<close>

text \<open>\<^verbatim>\<open>propDef['x-position'] || 999\<close>: an absent position and the position 0 are falsy.\<close>

definition position_or_999 :: "property \<Rightarrow> int" where
  "position_or_999 p = (case x_position p of None \<Rightarrow> 999 | Some n \<Rightarrow> if n = 0 then 999 else n)"

text \<open>The comparator handed to \<^verbatim>\<open>sort\<close>.\<close>

definition compare_entries :: "string \<times> property \<Rightarrow> string \<times> property \<Rightarrow> int" where
  "compare_entries a b = position_or_999 (snd a) - position_or_999 (snd b)"

text \<open>
  \<^verbatim>\<open>Array.prototype.sort(cmp)\<close>, which ECMAScript specifies to be stable: an insertion sort
  that puts an element before the first later element it does not exceed.
\<close>

fun sort_insert :: "('a \<Rightarrow> 'a \<Rightarrow> int) \<Rightarrow> 'a \<Rightarrow> 'a list \<Rightarrow> 'a list" where
  "sort_insert cmp x [] = [x]"
| "sort_insert cmp x (y # ys) =
     (if cmp x y \<le> 0 then x # y # ys else y # sort_insert cmp x ys)"

definition js_sort :: "('a \<Rightarrow> 'a \<Rightarrow> int) \<Rightarrow> 'a list \<Rightarrow> 'a list" where
  "js_sort cmp xs = foldr (sort_insert cmp) xs []"

text \<open>
  \<^verbatim>\<open>Object.entries(schema.properties || {})\<close> and its sorted copy; both generators compute
  the latter with the same expression.
\<close>

definition entries :: "schema \<Rightarrow> (string \<times> property) list" where
  "entries s = (case properties s of None \<Rightarrow> [] | Some es \<Rightarrow> es)"

definition sortedProps :: "schema \<Rightarrow> (string \<times> property) list" where
  "sortedProps s = js_sort compare_entries (entries s)"

section \<open>Bronze DDL\<close>

abbreviation (input) quote :: string where
  "quote \<equiv> [CHR 0x27]"

text \<open>
  \<^verbatim>\<open>tableName || schema.title?.toUpperCase().replace(/\s+/g, '_') || 'UNKNOWN_TABLE'\<close>
\<close>

definition table_name :: "string \<Rightarrow> schema \<Rightarrow> string" where
  "table_name tableName' s =
     (if tableName' \<noteq> [] then tableName'
      else (case title s of
              None \<Rightarrow> ''UNKNOWN_TABLE''
            | Some t \<Rightarrow>
                (if replace_spaces (toUpperCase t) \<noteq> [] then replace_spaces (toUpperCase t)
                 else ''UNKNOWN_TABLE'')))"

text \<open>The body of the loop over \<^verbatim>\<open>sortedProps\<close>: the line pushed for one column.\<close>

definition column_line :: "string list \<Rightarrow> string \<times> property \<Rightarrow> string" where
  "column_line required' entry =
     (let propName = fst entry; propDef = snd entry;
          snowflakeType = mapM3TypeToSnowflake propDef;
          isRequired = (propName \<in> set required');
          notNull = (if isRequired then '' NOT NULL'' else []);
          comment = (case description propDef of
                       None \<Rightarrow> []
                     | Some d \<Rightarrow> if d \<noteq> [] then '' COMMENT '' @ quote @ d @ quote else [])
      in ''    '' @ propName @ '' '' @ snowflakeType @ notNull @ comment)"

definition is_pk_candidate :: "string \<Rightarrow> bool" where
  "is_pk_candidate r =
     (r \<in> set [''CONO'', ''SUNO'', ''variationNumber'', ''timestamp'', ''deleted'']
      \<or> js_includes (toLowerCase r) ''id'')"

definition pkCandidates :: "string list \<Rightarrow> string list" where
  "pkCandidates required' = filter is_pk_candidate required'"

text \<open>The text appended after the statement when there are candidates.\<close>

definition pk_block :: "string \<Rightarrow> string list \<Rightarrow> string" where
  "pk_block table required' =
     (if length (pkCandidates required') > 0 then
        ''\<newline>\<newline>-- Primary key:\<newline>''
        @ ''-- ALTER TABLE '' @ table @ '' ADD PRIMARY KEY ('' @ join '', '' (pkCandidates required')
        @ '');\<newline>''
      else [])"

definition required_names :: "schema \<Rightarrow> string list" where
  "required_names s = (case required s of None \<Rightarrow> [] | Some r \<Rightarrow> r)"

text \<open>The array \<^verbatim>\<open>columns\<close> after the loop.\<close>

definition columns :: "schema \<Rightarrow> string list" where
  "columns s = map (column_line (required_names s)) (sortedProps s)"

text \<open>The two lines appended when \<^verbatim>\<open>schema.description\<close> is truthy.\<close>

definition description_trailer :: "string option \<Rightarrow> string" where
  "description_trailer description' =
     (case description' of
        None \<Rightarrow> []
      | Some d \<Rightarrow>
          if d \<noteq> [] then
            ''\<newline>CHANGE_TRACKING = TRUE'' @ ''\<newline>COMMENT = '' @ quote @ d @ quote
          else [])"

text \<open>
  The value of \<^verbatim>\<open>sql\<close> when the \<^verbatim>\<open>try\<close> block of \<^verbatim>\<open>convertToSnowflake\<close> reaches
  the primary-key filter: the two comment lines and the statement.
\<close>

definition create_statement :: "string \<Rightarrow> schema \<Rightarrow> string" where
  "create_statement tableName' s =
     (let table = table_name tableName' s;
          sql = ''-- Table: '' @ table @ ''\<newline>'';
          sql = sql @ ''-- Description: ''
                @ (case schema_description s of
                     None \<Rightarrow> ''No description''
                   | Some d \<Rightarrow> if d \<noteq> [] then d else ''No description'')
                @ ''\<newline>'';
          sql = sql @ ''CREATE OR ALTER TABLE '' @ table @ '' (\<newline>'';
          sql = sql @ join '',\<newline>'' (columns s);
          sql = sql @ ''\<newline>)'';
          sql = sql @ description_trailer (schema_description s)
      in sql)"

text \<open>The value handed to \<^verbatim>\<open>setSqlOutput\<close>.\<close>

definition ddl_sql :: "string \<Rightarrow> schema \<Rightarrow> string" where
  "ddl_sql tableName' s =
     create_statement tableName' s @ pk_block (table_name tableName' s) (required_names s)"

text \<open>
  \<^verbatim>\<open>JSON.parse\<close> is the runtime's. It is a parameter that returns the parsed schema, or
  the message of the exception that the \<^verbatim>\<open>try\<close> block catches: the parser's
  \<^verbatim>\<open>SyntaxError\<close>, or the \<^verbatim>\<open>TypeError\<close> raised on a parsed value that is not an object of
  the shape above.
\<close>

definition convertToSnowflake :: "(string \<Rightarrow> string + schema) \<Rightarrow> app_state \<Rightarrow> app_state" where
  "convertToSnowflake JSON_parse st =
     (case JSON_parse (jsonInput st) of
        Inl message \<Rightarrow> st\<lparr>sqlOutput := [], error := ''Error parsing JSON: '' @ message\<rparr>
      | Inr s \<Rightarrow> st\<lparr>sqlOutput := ddl_sql (tableName st) s, error := []\<rparr>)"

section \<open>Silver query\<close>

definition select_line :: "string \<times> property \<Rightarrow> string" where
  "select_line entry =
     (let name = fst entry; def = snd entry; type = mapM3TypeToSnowflake def
      in if type = ''STRING'' then ''TRIM('' @ name @ '') AS '' @ name else name)"

definition excludeCols :: "string list" where
  "excludeCols =
     [''ACCOUNTINGENTITY'', ''VARIATIONNUMBER'', ''TIMESTAMP'', ''DELETED'', ''ARCHIVED'', ''ROW_NUM'']"

definition bronzeSelectLines :: "schema \<Rightarrow> string list" where
  "bronzeSelectLines s =
     map select_line (sortedProps s)
     @ [''ROW_NUMBER() OVER (PARTITION BY CONO, SUNO ORDER BY VARIATIONNUMBER DESC) AS ROW_NUM'']"

definition silver_sql :: "string \<Rightarrow> schema \<Rightarrow> string" where
  "silver_sql tableName' s =
     (let table = table_name tableName' s;
          silver = ''CREATE OR REPLACE DYNAMIC TABLE '' @ table
                   @ ''\<newline>TARGET_LAG= DOWNSTREAM\<newline>WAREHOUSE={{env}}_ANALYTICS_WH''
                   @ ''\<newline>REFRESH_MODE = INCREMENTAL\<newline>INITIALIZE=ON_CREATE\<newline>AS''
                   @ ''\<newline>WITH BRONZE AS (\<newline>    SELECT ''
                   @ join '',\<newline>           '' (bronzeSelectLines s)
                   @ ''\<newline>    FROM {{env}}_BRONZE.'' @ table @ '' b\<newline>)\<newline>\<newline>'';
          silver = silver @ ''SELECT *\<newline>       EXCLUDE ('' @ join '', '' excludeCols
                   @ '')\<newline>FROM BRONZE\<newline>WHERE ROW_NUM = 1 AND DELETED = FALSE;\<newline>''
      in silver)"


section \<open>Sample inputs\<close>

text \<open>A descriptor and a schema with no field set, and the schema of \<^verbatim>\<open>loadExample\<close>.\<close>

definition no_fields :: property where
  "no_fields =
     \<lparr>ptype = None, format = None, maximum = None, multipleOf = None, x_position = None,
      x_dateTimeFormat = None, description = None\<rparr>"

definition no_schema :: schema where
  "no_schema = \<lparr>title = None, schema_description = None, properties = None, required = None\<rparr>"

definition example_schema :: schema where
  "example_schema =
     \<lparr>title = Some ''Supplier'',
      schema_description = Some ''Supplier master data'',
      properties = Some
        [(''CONO'', no_fields\<lparr>ptype := Some ''integer'', maximum := Some (JNumber ''999''),
            x_position := Some 1, description := Some ''company''\<rparr>),
         (''SUNO'', no_fields\<lparr>ptype := Some ''string'', x_position := Some 2,
            description := Some ''supplier''\<rparr>),
         (''SUNM'', no_fields\<lparr>ptype := Some ''string'', x_position := Some 3,
            description := Some ''supplier name''\<rparr>),
         (''variationNumber'', no_fields\<lparr>ptype := Some ''integer'',
            maximum := Some (JNumber ''9223372036854776000''), x_position := Some 4,
            description := Some ''record modification sequence''\<rparr>),
         (''timestamp'', no_fields\<lparr>ptype := Some ''string'', format := Some ''date-time'',
            x_position := Some 5, description := Some ''record modification time''\<rparr>),
         (''deleted'', no_fields\<lparr>ptype := Some ''boolean'', x_position := Some 6,
            description := Some ''is record deleted''\<rparr>)],
      required = Some [''CONO'', ''SUNO'', ''variationNumber'', ''timestamp'', ''deleted'']\<rparr>"

section \<open>The specification's wording, for comparison\<close>

text \<open>
  The specification's ordering key: the \<^verbatim>\<open>x-position\<close>, and 999 for a descriptor that has
  none.
\<close>

definition spec_position :: "property \<Rightarrow> int" where
  "spec_position p = (case x_position p of None \<Rightarrow> 999 | Some n \<Rightarrow> n)"

definition spec_sortedProps :: "schema \<Rightarrow> (string \<times> property) list" where
  "spec_sortedProps s = sort_key (\<lambda>e. spec_position (snd e)) (entries s)"

text \<open>The schema in which every falsy \<^verbatim>\<open>x-position\<close> is written out as 999.\<close>

definition with_explicit_999 :: "schema \<Rightarrow> schema" where
  "with_explicit_999 s =
     s\<lparr>properties :=
         Some (map (\<lambda>e. (fst e, (snd e)\<lparr>x_position := Some (position_or_999 (snd e))\<rparr>)) (entries s))\<rparr>"

text \<open>
  The specification's decimal resolution. A field has a fractional part when its text has
  a decimal point; the scale counts the digits after the point; the precision counts the
  digits of \<^verbatim>\<open>maximum\<close> when it is present, adding the size of the exponent to the digits
  of the mantissa in scientific notation, and is 38 otherwise.
\<close>

definition spec_has_fraction :: "json_value option \<Rightarrow> bool" where
  "spec_has_fraction v = (case v of None \<Rightarrow> False | Some x \<Rightarrow> CHR ''.'' \<in> set (toString x))"

definition after_point :: "string \<Rightarrow> string" where
  "after_point str = drop 1 (dropWhile (\<lambda>c. c \<noteq> CHR ''.'') str)"

definition spec_scale :: "json_value option \<Rightarrow> nat" where
  "spec_scale v =
     (case v of None \<Rightarrow> 0 | Some x \<Rightarrow> length (filter is_digit (after_point (toString x))))"

definition spec_digit_count :: "string \<Rightarrow> nat" where
  "spec_digit_count str = length (filter is_digit str)"

definition lower_exponent :: "string \<Rightarrow> string" where
  "lower_exponent str = map (\<lambda>c. if c = CHR ''E'' then CHR ''e'' else c) str"

definition spec_precision :: "json_value option \<Rightarrow> int option" where
  "spec_precision maximum' =
     (case maximum' of
        None \<Rightarrow> Some 38
      | Some m \<Rightarrow>
          (let str = lower_exponent (toString m) in
             if CHR ''e'' \<in> set str then
               (case parseInt (drop 1 (dropWhile (\<lambda>c. c \<noteq> CHR ''e'') str)) of
                  None \<Rightarrow> None
                | Some exp \<Rightarrow>
                    Some (\<bar>exp\<bar> + int (spec_digit_count (takeWhile (\<lambda>c. c \<noteq> CHR ''e'') str))))
             else Some (int (spec_digit_count str))))"

definition spec_number :: "json_value option \<Rightarrow> json_value option \<Rightarrow> string" where
  "spec_number maximum' scale_field =
     ''NUMBER('' @ string_of_number (map_option (min 38) (spec_precision maximum'))
     @ '', '' @ string_of_nat (spec_scale scale_field) @ '')''"

definition spec_number_type :: "json_value option \<Rightarrow> json_value option \<Rightarrow> string" where
  "spec_number_type maximum' multipleOf' =
     (if spec_has_fraction multipleOf' then spec_number maximum' multipleOf'
      else if spec_has_fraction maximum' then spec_number maximum' maximum'
      else ''NUMBER'')"

text \<open>
  What the code takes for a present \<^verbatim>\<open>maximum\<close>: a zero or an empty string counts as
  absent.
\<close>

definition truthy_or_absent :: "json_value option \<Rightarrow> json_value option" where
  "truthy_or_absent v = (if truthy v then v else None)"

text \<open>
  Renderings in plain notation: only digits follow the decimal point (no exponent), and
  the mantissa consists of digits apart from one decimal point and one sign, with at most
  one exponent marker after it.
\<close>

definition plain_fraction :: "json_value option \<Rightarrow> bool" where
  "plain_fraction v =
     (case v of None \<Rightarrow> True | Some x \<Rightarrow> list_all is_digit (after_point (toString x)))"

definition plain_mantissa :: "json_value option \<Rightarrow> bool" where
  "plain_mantissa v =
     (case v of
        None \<Rightarrow> True
      | Some x \<Rightarrow>
          count_list (toString x) (CHR ''e'') + count_list (toString x) (CHR ''E'') \<le> 1
          \<and> list_all is_digit
                (remove1 (CHR ''-'')
                   (remove1 (CHR ''.'')
                      (takeWhile (\<lambda>c. c \<noteq> CHR ''e'') (lower_exponent (toString x))))))"

section \<open>Facts about the primitives\<close>

lemma js_includes_single: "js_includes s [c] = (c \<in> set s)"
  by (induction s) auto

lemma replace_Nil: "replace c [] s = remove1 c s"
  by (induction s) auto

lemma split_not_in: "c \<notin> set s \<Longrightarrow> split c s = [s]"
  by (induction s) auto

lemma split_ne: "split c s \<noteq> []"
  by (induction s) (auto split: list.splits)

lemma split_takeWhile:
  "c \<in> set s \<Longrightarrow>
     split c s = takeWhile (\<lambda>x. x \<noteq> c) s # split c (drop 1 (dropWhile (\<lambda>x. x \<noteq> c) s))"
proof (induction s)
  case Nil
  then show ?case by simp
next
  case (Cons x xs)
  show ?case
  proof (cases "x = c")
    case True
    then show ?thesis by simp
  next
    case False
    with Cons.prems have "c \<in> set xs" by simp
    with Cons.IH False show ?thesis by simp
  qed
qed

lemma split_single:
  assumes "count_list s c \<le> 1" "c \<in> set s"
  shows "split c s = [takeWhile (\<lambda>x. x \<noteq> c) s, drop 1 (dropWhile (\<lambda>x. x \<noteq> c) s)]"
proof -
  have "count_list s c
      = count_list (takeWhile (\<lambda>x. x \<noteq> c) s) c + count_list (dropWhile (\<lambda>x. x \<noteq> c) s) c"
    by (metis count_list_append takeWhile_dropWhile_id)
  moreover from assms(2) obtain r where r: "dropWhile (\<lambda>x. x \<noteq> c) s = c # r"
    by (metis (mono_tags, lifting) dropWhile_eq_Nil_conv hd_dropWhile list.collapse)
  ultimately have "count_list r c = 0" using assms(1) by simp
  then have "c \<notin> set r" by (simp add: count_list_0_iff)
  then have "split c r = [r]" by (rule split_not_in)
  with assms(2) r show ?thesis by (simp add: split_takeWhile)
qed

lemma not_digit_point: "\<not> is_digit (CHR ''.'')"
  by (simp add: is_digit_def)

lemma not_digit_minus: "\<not> is_digit (CHR ''-'')"
  by (simp add: is_digit_def)

section \<open>Type mapping: the decimal resolution against the specification\<close>

lemma has_point_spec: "has_point v = spec_has_fraction v"
proof (cases v)
  case None
  then show ?thesis by (simp add: has_point_def spec_has_fraction_def)
next
  case (Some x)
  have "CHR ''.'' \<in> set (toString x) \<Longrightarrow> truthy (Some x)"
    by (cases x) auto
  with Some show ?thesis
    by (auto simp: has_point_def spec_has_fraction_def js_includes_single)
qed

lemma has_point_truthy: "has_point v \<Longrightarrow> truthy_or_absent v = v"
  by (auto simp: has_point_def truthy_or_absent_def split: option.splits)

lemma has_point_truthy_or_absent: "has_point (truthy_or_absent v) = has_point v"
  by (auto simp: has_point_def truthy_or_absent_def split: option.splits)

lemma fraction_length_plain:
  assumes "has_point v" "plain_fraction v"
  shows "fraction_length v = spec_scale v"
proof -
  from assms(1) obtain x where v: "v = Some x" and p: "CHR ''.'' \<in> set (toString x)"
    by (auto simp: has_point_def js_includes_single split: option.splits)
  from assms(2) v have d: "list_all is_digit (after_point (toString x))"
    by (simp add: plain_fraction_def)
  then have "CHR ''.'' \<notin> set (after_point (toString x))"
    using not_digit_point by (auto simp: list_all_iff)
  then have "split (CHR ''.'') (after_point (toString x)) = [after_point (toString x)]"
    by (rule split_not_in)
  with p have "split (CHR ''.'') (toString x)
      = [takeWhile (\<lambda>c. c \<noteq> CHR ''.'') (toString x), after_point (toString x)]"
    by (simp add: split_takeWhile after_point_def)
  moreover have "filter is_digit (after_point (toString x)) = after_point (toString x)"
    using d by (simp add: list_all_iff)
  ultimately show ?thesis
    using v by (simp add: fraction_length_def spec_scale_def at_def)
qed

lemma length_strip_digits:
  assumes "list_all is_digit (remove1 (CHR ''-'') (remove1 (CHR ''.'') str))"
  shows "length (replace (CHR ''-'') [] (replace (CHR ''.'') [] str)) = spec_digit_count str"
proof -
  have f: "filter is_digit (remove1 c t) = filter is_digit t" if "\<not> is_digit c" for c t
    using that by (induction t) auto
  have "filter is_digit str = filter is_digit (remove1 (CHR ''-'') (remove1 (CHR ''.'') str))"
    by (simp add: f not_digit_point not_digit_minus)
  also have "\<dots> = remove1 (CHR ''-'') (remove1 (CHR ''.'') str)"
    using assms by (simp add: list_all_iff)
  finally show ?thesis
    by (simp add: replace_Nil spec_digit_count_def)
qed

lemma replace_E_lower:
  "count_list str (CHR ''E'') \<le> 1 \<Longrightarrow> replace (CHR ''E'') ''e'' str = lower_exponent str"
proof (induction str)
  case Nil
  then show ?case by (simp add: lower_exponent_def)
next
  case (Cons x xs)
  show ?case
  proof (cases "x = CHR ''E''")
    case True
    with Cons.prems have "count_list xs (CHR ''E'') = 0" by simp
    then have "CHR ''E'' \<notin> set xs" by (simp add: count_list_0_iff)
    then have "lower_exponent xs = xs"
      unfolding lower_exponent_def by (intro map_idI) auto
    with True show ?thesis by (simp add: lower_exponent_def)
  next
    case False
    with Cons show ?thesis by (simp add: lower_exponent_def)
  qed
qed

lemma count_lower_exponent:
  "count_list (lower_exponent str) (CHR ''e'')
     = count_list str (CHR ''e'') + count_list str (CHR ''E'')"
  by (induction str) (simp_all add: lower_exponent_def)

lemma precision_of_plain:
  assumes "plain_mantissa maximum'"
  shows "precision_of maximum' = spec_precision (truthy_or_absent maximum')"
proof (cases "truthy maximum'")
  case False
  then show ?thesis
    by (cases maximum') (simp_all add: precision_of_def spec_precision_def truthy_or_absent_def)
next
  case t: True
  then obtain m where Some: "maximum' = Some m" by (cases maximum') auto
  let ?str = "toString m"
  let ?low = "lower_exponent ?str"
  from assms Some have c: "count_list ?str (CHR ''e'') + count_list ?str (CHR ''E'') \<le> 1"
    and d: "list_all is_digit
              (remove1 (CHR ''-'') (remove1 (CHR ''.'') (takeWhile (\<lambda>c. c \<noteq> CHR ''e'') ?low)))"
    by (simp_all add: plain_mantissa_def)
  from c have r: "replace (CHR ''E'') ''e'' ?str = ?low"
    by (simp add: replace_E_lower)
  from c have c1: "count_list ?low (CHR ''e'') \<le> 1"
    by (simp add: count_lower_exponent)
  show ?thesis
  proof (cases "CHR ''e'' \<in> set ?low")
    case True
    with c1 have "split (CHR ''e'') ?low
        = [takeWhile (\<lambda>x. x \<noteq> CHR ''e'') ?low, drop 1 (dropWhile (\<lambda>x. x \<noteq> CHR ''e'') ?low)]"
      by (rule split_single)
    moreover have "length (replace (CHR ''-'') [] (replace (CHR ''.'') []
          (takeWhile (\<lambda>x. x \<noteq> CHR ''e'') ?low)))
        = spec_digit_count (takeWhile (\<lambda>x. x \<noteq> CHR ''e'') ?low)"
      using d by (rule length_strip_digits)
    ultimately show ?thesis
      using True t r
      by (simp add: precision_of_def spec_precision_def Some js_includes_single Let_def
            truthy_or_absent_def cong: option.case_cong)
  next
    case False
    then have "takeWhile (\<lambda>c. c \<noteq> CHR ''e'') ?low = ?low"
      by (auto simp: takeWhile_eq_all_conv)
    with d have "list_all is_digit (remove1 (CHR ''-'') (remove1 (CHR ''.'') ?low))" by simp
    then have "length (replace (CHR ''-'') [] (replace (CHR ''.'') [] ?low)) = spec_digit_count ?low"
      by (rule length_strip_digits)
    with False t r show ?thesis
      by (simp add: precision_of_def spec_precision_def Some js_includes_single Let_def
            truthy_or_absent_def)
  qed
qed

lemma number_type_spec:
  assumes "plain_mantissa maximum'"
    and "plain_fraction (if has_point multipleOf' then multipleOf' else maximum')"
  shows "number_type maximum' multipleOf' = spec_number_type (truthy_or_absent maximum') multipleOf'"
proof -
  have p: "precision_of maximum' = spec_precision (truthy_or_absent maximum')"
    using assms(1) by (rule precision_of_plain)
  show ?thesis
  proof (cases "has_point multipleOf'")
    case True
    with assms(2) have "fraction_length multipleOf' = spec_scale multipleOf'"
      by (simp add: fraction_length_plain)
    with True p show ?thesis
      by (simp add: number_type_def spec_number_type_def spec_number_def has_point_spec [symmetric])
  next
    case False
    show ?thesis
    proof (cases "has_point maximum'")
      case True
      with assms(2) False have "fraction_length maximum' = spec_scale maximum'"
        by (simp add: fraction_length_plain)
      with True False p show ?thesis
        by (simp add: number_type_def spec_number_type_def spec_number_def
              has_point_spec [symmetric] has_point_truthy)
    next
      case nm: False
      with False show ?thesis
        by (simp add: number_type_def spec_number_type_def has_point_spec [symmetric]
              has_point_truthy_or_absent)
    qed
  qed
qed

text \<open>
  C4. A descriptor whose \<^verbatim>\<open>format\<close> is \<^verbatim>\<open>date-time\<close> maps to \<^verbatim>\<open>DATETIME\<close> whatever its
  \<^verbatim>\<open>type\<close> (or any other field) is; failing that, a descriptor whose \<^verbatim>\<open>x-dateTimeFormat\<close>
  is \<^verbatim>\<open>epoch-millis\<close> maps to \<^verbatim>\<open>NUMBER\<close> before any rule looks at \<^verbatim>\<open>type\<close>.
\<close>

theorem date_time_rules_first:
  "(format p = Some ''date-time'' \<longrightarrow> mapM3TypeToSnowflake p = ''DATETIME'')
   \<and> (format p \<noteq> Some ''date-time'' \<and> x_dateTimeFormat p = Some ''epoch-millis''
        \<longrightarrow> mapM3TypeToSnowflake p = ''NUMBER'')"
  by (simp add: mapM3TypeToSnowflake_def)

theorem date_time_rules_first_witness:
  "mapM3TypeToSnowflake
     (no_fields\<lparr>ptype := Some ''integer'', format := Some ''date-time'',
        x_dateTimeFormat := Some ''epoch-millis''\<rparr>) = ''DATETIME''
   \<and> mapM3TypeToSnowflake
       (no_fields\<lparr>ptype := Some ''number'', multipleOf := Some (JNumber ''0.01''),
          x_dateTimeFormat := Some ''epoch-millis''\<rparr>) = ''NUMBER''"
  using
    date_time_rules_first [of "no_fields\<lparr>ptype := Some ''integer'', format := Some ''date-time'',
        x_dateTimeFormat := Some ''epoch-millis''\<rparr>"]
    date_time_rules_first [of "no_fields\<lparr>ptype := Some ''number'',
        multipleOf := Some (JNumber ''0.01''), x_dateTimeFormat := Some ''epoch-millis''\<rparr>"]
  by (simp add: no_fields_def)

text \<open>
  C6. The type mapper returns a type name for every descriptor: one of the five fixed
  names or a \<^verbatim>\<open>NUMBER(precision, scale)\<close>; no operation in it can fail on a descriptor of
  this shape. When neither date rule applies and \<^verbatim>\<open>type\<close> is not \<^verbatim>\<open>boolean\<close>, \<^verbatim>\<open>integer\<close>
  or \<^verbatim>\<open>number\<close> (so in particular when it is absent or unrecognised) the result is
  \<^verbatim>\<open>STRING\<close>.
\<close>

theorem unknown_type_is_string:
  "(format p \<noteq> Some ''date-time'' \<and> x_dateTimeFormat p \<noteq> Some ''epoch-millis''
      \<and> ptype p \<notin> {Some ''boolean'', Some ''integer'', Some ''number''}
      \<longrightarrow> mapM3TypeToSnowflake p = ''STRING'')
   \<and> (mapM3TypeToSnowflake p \<in> {''DATETIME'', ''NUMBER'', ''BOOLEAN'', ''INTEGER'', ''STRING''}
       \<or> (\<exists>precision scale.
            mapM3TypeToSnowflake p
              = ''NUMBER('' @ string_of_number precision @ '', '' @ string_of_nat scale @ '')''))"
proof -
  have "number_type mx mo = ''NUMBER''
      \<or> (\<exists>precision scale.
           number_type mx mo
             = ''NUMBER('' @ string_of_number precision @ '', '' @ string_of_nat scale @ '')'')"
    for mx mo
    by (auto simp: number_type_def Let_def)
  from this [of "maximum p" "multipleOf p"] show ?thesis
    by (auto simp: mapM3TypeToSnowflake_def)
qed

theorem unknown_type_is_string_witness:
  "mapM3TypeToSnowflake no_fields = ''STRING''
   \<and> mapM3TypeToSnowflake (no_fields\<lparr>ptype := Some ''array'', maximum := Some (JNumber ''9.5'')\<rparr>)
       = ''STRING''"
  using unknown_type_is_string [of no_fields]
    unknown_type_is_string [of "no_fields\<lparr>ptype := Some ''array'', maximum := Some (JNumber ''9.5'')\<rparr>"]
  by (simp add: no_fields_def)

text \<open>
  C5, as the code has it. For a descriptor of \<^verbatim>\<open>type\<close> \<^verbatim>\<open>number\<close> that neither date rule
  catches: when neither the text of \<^verbatim>\<open>multipleOf\<close> nor that of \<^verbatim>\<open>maximum\<close> has a decimal
  point the result is plain \<^verbatim>\<open>NUMBER\<close>; in general the result is the specification's
  decimal resolution, with a \<^verbatim>\<open>maximum\<close> of zero
  (or an empty string) counted as absent, provided the renderings are in plain notation:
  the field that supplies the fraction has only digits after its decimal point, and the
  mantissa of \<^verbatim>\<open>maximum\<close> has only digits besides one sign and one decimal point.
  The two examples of the specification hold as written.
\<close>

theorem decimal_resolution:
  "(format p \<noteq> Some ''date-time'' \<and> x_dateTimeFormat p \<noteq> Some ''epoch-millis''
      \<and> ptype p = Some ''number''
      \<and> \<not> spec_has_fraction (multipleOf p) \<and> \<not> spec_has_fraction (maximum p)
      \<longrightarrow> mapM3TypeToSnowflake p = ''NUMBER'')
   \<and> (format p \<noteq> Some ''date-time'' \<and> x_dateTimeFormat p \<noteq> Some ''epoch-millis''
      \<and> ptype p = Some ''number'' \<and> plain_mantissa (maximum p)
      \<and> plain_fraction (if spec_has_fraction (multipleOf p) then multipleOf p else maximum p)
      \<longrightarrow> mapM3TypeToSnowflake p
           = spec_number_type (truthy_or_absent (maximum p)) (multipleOf p))
   \<and> mapM3TypeToSnowflake
       (no_fields\<lparr>ptype := Some ''number'', multipleOf := Some (JNumber ''0.01''),
          maximum := Some (JNumber ''999.99'')\<rparr>) = ''NUMBER(5, 2)''
   \<and> mapM3TypeToSnowflake (no_fields\<lparr>ptype := Some ''number'', maximum := Some (JNumber ''500'')\<rparr>)
       = ''NUMBER''"
proof (intro conjI impI)
  assume "format p \<noteq> Some ''date-time'' \<and> x_dateTimeFormat p \<noteq> Some ''epoch-millis''
      \<and> ptype p = Some ''number''
      \<and> \<not> spec_has_fraction (multipleOf p) \<and> \<not> spec_has_fraction (maximum p)"
  then show "mapM3TypeToSnowflake p = ''NUMBER''"
    by (simp add: mapM3TypeToSnowflake_def number_type_def has_point_spec)
next
  assume a: "format p \<noteq> Some ''date-time'' \<and> x_dateTimeFormat p \<noteq> Some ''epoch-millis''
      \<and> ptype p = Some ''number'' \<and> plain_mantissa (maximum p)
      \<and> plain_fraction (if spec_has_fraction (multipleOf p) then multipleOf p else maximum p)"
  then have "number_type (maximum p) (multipleOf p)
      = spec_number_type (truthy_or_absent (maximum p)) (multipleOf p)"
    by (intro number_type_spec) (simp_all add: has_point_spec)
  with a show "mapM3TypeToSnowflake p
      = spec_number_type (truthy_or_absent (maximum p)) (multipleOf p)"
    by (simp add: mapM3TypeToSnowflake_def)
next
  show "mapM3TypeToSnowflake
       (no_fields\<lparr>ptype := Some ''number'', multipleOf := Some (JNumber ''0.01''),
          maximum := Some (JNumber ''999.99'')\<rparr>) = ''NUMBER(5, 2)''"
    by code_simp
next
  show "mapM3TypeToSnowflake (no_fields\<lparr>ptype := Some ''number'', maximum := Some (JNumber ''500'')\<rparr>)
       = ''NUMBER''"
    by code_simp
qed

theorem decimal_resolution_witness:
  "spec_number_type (truthy_or_absent (Some (JNumber ''1.5e+21''))) (Some (JString ''0.001''))
     = ''NUMBER(23, 3)''
   \<and> mapM3TypeToSnowflake
       (no_fields\<lparr>ptype := Some ''number'', multipleOf := Some (JString ''0.001''),
          maximum := Some (JNumber ''1.5e+21'')\<rparr>) = ''NUMBER(23, 3)''"
proof -
  let ?p = "no_fields\<lparr>ptype := Some ''number'', multipleOf := Some (JString ''0.001''),
          maximum := Some (JNumber ''1.5e+21'')\<rparr>"
  have s: "spec_number_type (truthy_or_absent (Some (JNumber ''1.5e+21''))) (Some (JString ''0.001''))
     = ''NUMBER(23, 3)''"
    by code_simp
  have h: "format ?p \<noteq> Some ''date-time'' \<and> x_dateTimeFormat ?p \<noteq> Some ''epoch-millis''
      \<and> ptype ?p = Some ''number'' \<and> plain_mantissa (maximum ?p)
      \<and> plain_fraction (if spec_has_fraction (multipleOf ?p) then multipleOf ?p else maximum ?p)"
    by code_simp
  from decimal_resolution [of ?p] h
  have "mapM3TypeToSnowflake ?p = spec_number_type (truthy_or_absent (maximum ?p)) (multipleOf ?p)"
    by blast
  with s show ?thesis by (simp add: no_fields_def)
qed

text \<open>
  The claim as stated fails where \<^verbatim>\<open>maximum\<close> is present and zero: the claim counts the one digit
  of \<^verbatim>\<open>0\<close>, the code keeps the default 38 because \<^verbatim>\<open>if (maximum)\<close> is false.
\<close>

theorem decimal_resolution_counterexample:
  "spec_number_type (Some (JNumber ''0'')) (Some (JNumber ''0.01'')) = ''NUMBER(1, 2)''
   \<and> mapM3TypeToSnowflake
       (no_fields\<lparr>ptype := Some ''number'', multipleOf := Some (JNumber ''0.01''),
          maximum := Some (JNumber ''0'')\<rparr>) = ''NUMBER(38, 2)''"
  by code_simp

section \<open>Column order: the sort is stable and keyed by position\<close>

lemma sort_insert_insort_key:
  "sort_insert (\<lambda>a b. f a - f b) x xs = insort_key f x xs"
  by (induction xs) auto

lemma js_sort_sort_key: "js_sort (\<lambda>a b. f a - f b) xs = sort_key f xs"
  by (induction xs) (simp_all add: js_sort_def sort_insert_insort_key)

lemma sortedProps_sort_key:
  "sortedProps s = sort_key (\<lambda>e. position_or_999 (snd e)) (entries s)"
  unfolding sortedProps_def compare_entries_def [abs_def] by (rule js_sort_sort_key)

lemma sorted_sortedProps: "sorted (map (\<lambda>e. position_or_999 (snd e)) (sortedProps s))"
  by (simp add: sortedProps_sort_key)

lemma sort_key_map_entries:
  assumes "\<And>e. f (g e) = f e"
  shows "sort_key f (map g xs) = map g (sort_key f xs)"
proof (induction xs)
  case Nil
  show ?case by simp
next
  case (Cons x xs)
  have ins: "insort_key f (g x) (map g ys) = map g (insort_key f x ys)" for ys
    by (induction ys) (simp_all add: assms)
  show ?case by (simp add: Cons.IH ins)
qed

lemma sortedProps_same_ties:
  assumes "mset es = mset (entries s)"
    and "\<forall>k. filter (\<lambda>e. position_or_999 (snd e) = k) es
             = filter (\<lambda>e. position_or_999 (snd e) = k) (entries s)"
  shows "sortedProps (s\<lparr>properties := Some es\<rparr>) = sortedProps s"
proof -
  let ?f = "\<lambda>e. position_or_999 (snd e)"
  have "sort_key ?f (entries s) = sort_key ?f es"
  proof (rule properties_for_sort_key)
    show "mset (sort_key ?f es) = mset (entries s)"
      using assms(1) by simp
  next
    fix k
    have "filter (\<lambda>x. ?f k = ?f x) (sort_key ?f es) = filter (\<lambda>x. ?f x = ?f k) (sort_key ?f es)"
      by (simp add: eq_commute)
    also have "\<dots> = filter (\<lambda>x. ?f x = ?f k) es"
      by (rule sort_key_stable)
    also have "\<dots> = filter (\<lambda>x. ?f x = ?f k) (entries s)"
      using assms(2) by simp
    also have "\<dots> = filter (\<lambda>x. ?f k = ?f x) (entries s)"
      by (simp add: eq_commute)
    finally show "filter (\<lambda>x. ?f k = ?f x) (sort_key ?f es) = filter (\<lambda>x. ?f k = ?f x) (entries s)" .
  next
    show "sorted (map ?f (sort_key ?f es))" by simp
  qed
  then show ?thesis
    by (simp add: sortedProps_sort_key entries_def)
qed

lemma sortedProps_permutation:
  assumes "mset es = mset (entries s)"
    and "distinct (map (\<lambda>e. position_or_999 (snd e)) (entries s))"
  shows "sortedProps (s\<lparr>properties := Some es\<rparr>) = sortedProps s"
proof -
  have "inj_on (\<lambda>e. position_or_999 (snd e)) (set es)"
    using assms by (metis distinct_map mset_eq_setD)
  then show ?thesis
    using assms(1) by (simp add: sortedProps_sort_key entries_def sort_key_eq_sort_key)
qed

lemma ddl_sql_sortedProps:
  assumes "sortedProps s' = sortedProps s" "title s' = title s"
    "schema_description s' = schema_description s" "required s' = required s"
  shows "ddl_sql t s' = ddl_sql t s"
  using assms
  by (simp add: ddl_sql_def create_statement_def columns_def required_names_def table_name_def)

lemma silver_sql_sortedProps:
  assumes "sortedProps s' = sortedProps s" "title s' = title s"
  shows "silver_sql t s' = silver_sql t s"
  using assms by (simp add: silver_sql_def bronzeSelectLines_def table_name_def)

text \<open>
  C2, as the code has it. The sorted entries are the stable sort of the entries by the key
  \<^verbatim>\<open>x-position || 999\<close>: ascending in that key, a permutation of the entries, and with
  the entries of each key in their original order. The columns of the DDL and the select
  list of the Silver query are built from that one sequence.
\<close>

theorem column_order_stable:
  "sortedProps s = sort_key (\<lambda>e. position_or_999 (snd e)) (entries s)
   \<and> sorted (map (\<lambda>e. position_or_999 (snd e)) (sortedProps s))
   \<and> mset (sortedProps s) = mset (entries s)
   \<and> (\<forall>k. filter (\<lambda>e. position_or_999 (snd e) = k) (sortedProps s)
            = filter (\<lambda>e. position_or_999 (snd e) = k) (entries s))
   \<and> columns s = map (column_line (required_names s)) (sortedProps s)
   \<and> butlast (bronzeSelectLines s) = map select_line (sortedProps s)"
  by (simp add: sortedProps_sort_key sort_key_stable columns_def bronzeSelectLines_def)

theorem column_order_stable_witness:
  "map fst (sortedProps example_schema)
     = [''CONO'', ''SUNO'', ''SUNM'', ''variationNumber'', ''timestamp'', ''deleted'']
   \<and> map fst (sortedProps
        (no_schema\<lparr>properties := Some
           [(''d'', no_fields), (''c'', no_fields\<lparr>x_position := Some 2\<rparr>),
            (''b'', no_fields\<lparr>x_position := Some 0\<rparr>),
            (''a'', no_fields\<lparr>x_position := Some 2\<rparr>)]\<rparr>)) = [''c'', ''a'', ''d'', ''b'']"
proof -
  let ?s = "no_schema\<lparr>properties := Some
           [(''d'', no_fields), (''c'', no_fields\<lparr>x_position := Some 2\<rparr>),
            (''b'', no_fields\<lparr>x_position := Some 0\<rparr>),
            (''a'', no_fields\<lparr>x_position := Some 2\<rparr>)]\<rparr>"
  have "sortedProps example_schema
      = sort_key (\<lambda>e. position_or_999 (snd e)) (entries example_schema)"
    and "sortedProps ?s = sort_key (\<lambda>e. position_or_999 (snd e)) (entries ?s)"
    using column_order_stable [of example_schema] column_order_stable [of ?s] by blast+
  then show ?thesis
    by (simp add: entries_def example_schema_def no_schema_def no_fields_def position_or_999_def)
qed

text \<open>
  The claim as stated fails for a position of 0: sorted by \<^verbatim>\<open>x-position\<close> it would come first,
  the code sorts it as 999.
\<close>

theorem column_order_counterexample:
  "map fst (spec_sortedProps
      (no_schema\<lparr>properties := Some
         [(''a'', no_fields\<lparr>x_position := Some 0\<rparr>), (''b'', no_fields\<lparr>x_position := Some 1\<rparr>)]\<rparr>))
     = [''a'', ''b'']
   \<and> map fst (sortedProps
      (no_schema\<lparr>properties := Some
         [(''a'', no_fields\<lparr>x_position := Some 0\<rparr>), (''b'', no_fields\<lparr>x_position := Some 1\<rparr>)]\<rparr>))
     = [''b'', ''a'']"
  by code_simp

text \<open>
  C3, as the code has it. Listing the same properties in another order gives the same DDL
  when the properties that share a key \<^verbatim>\<open>x-position || 999\<close> stay in the same relative
  order; in particular when the keys are pairwise different. Sorting is idempotent for
  every schema.
\<close>

theorem insertion_order_irrelevant:
  "(mset es = mset (entries s)
      \<and> (\<forall>k. filter (\<lambda>e. position_or_999 (snd e) = k) es
               = filter (\<lambda>e. position_or_999 (snd e) = k) (entries s))
      \<longrightarrow> ddl_sql t (s\<lparr>properties := Some es\<rparr>) = ddl_sql t s)
   \<and> (mset es = mset (entries s) \<and> distinct (map (\<lambda>e. position_or_999 (snd e)) (entries s))
      \<longrightarrow> ddl_sql t (s\<lparr>properties := Some es\<rparr>) = ddl_sql t s)
   \<and> sortedProps (s\<lparr>properties := Some (sortedProps s)\<rparr>) = sortedProps s"
proof (intro conjI impI)
  assume "mset es = mset (entries s)
      \<and> (\<forall>k. filter (\<lambda>e. position_or_999 (snd e) = k) es
               = filter (\<lambda>e. position_or_999 (snd e) = k) (entries s))"
  then have "sortedProps (s\<lparr>properties := Some es\<rparr>) = sortedProps s"
    by (simp add: sortedProps_same_ties)
  then show "ddl_sql t (s\<lparr>properties := Some es\<rparr>) = ddl_sql t s"
    by (rule ddl_sql_sortedProps) simp_all
next
  assume "mset es = mset (entries s) \<and> distinct (map (\<lambda>e. position_or_999 (snd e)) (entries s))"
  then have "sortedProps (s\<lparr>properties := Some es\<rparr>) = sortedProps s"
    by (simp add: sortedProps_permutation)
  then show "ddl_sql t (s\<lparr>properties := Some es\<rparr>) = ddl_sql t s"
    by (rule ddl_sql_sortedProps) simp_all
next
  show "sortedProps (s\<lparr>properties := Some (sortedProps s)\<rparr>) = sortedProps s"
    using sorted_sortedProps [of s]
    by (simp add: sortedProps_sort_key [of "s\<lparr>properties := Some (sortedProps s)\<rparr>"] entries_def
          sort_key_id_if_sorted)
qed

theorem insertion_order_irrelevant_witness:
  "ddl_sql []
     (no_schema\<lparr>properties := Some
        [(''b'', no_fields\<lparr>x_position := Some 2\<rparr>), (''c'', no_fields),
         (''a'', no_fields\<lparr>x_position := Some 1\<rparr>)]\<rparr>)
   = ddl_sql []
     (no_schema\<lparr>properties := Some
        [(''c'', no_fields), (''a'', no_fields\<lparr>x_position := Some 1\<rparr>),
         (''b'', no_fields\<lparr>x_position := Some 2\<rparr>)]\<rparr>)
   \<and> ddl_sql []
     (no_schema\<lparr>properties := Some
        [(''c'', no_fields), (''a'', no_fields\<lparr>x_position := Some 1\<rparr>), (''d'', no_fields)]\<rparr>)
   = ddl_sql []
     (no_schema\<lparr>properties := Some
        [(''c'', no_fields), (''d'', no_fields), (''a'', no_fields\<lparr>x_position := Some 1\<rparr>)]\<rparr>)"
proof -
  let ?es = "[(''b'', no_fields\<lparr>x_position := Some 2\<rparr>), (''c'', no_fields),
         (''a'', no_fields\<lparr>x_position := Some 1\<rparr>)]"
  let ?s = "no_schema\<lparr>properties := Some
        [(''c'', no_fields), (''a'', no_fields\<lparr>x_position := Some 1\<rparr>),
         (''b'', no_fields\<lparr>x_position := Some 2\<rparr>)]\<rparr>"
  let ?es' = "[(''c'', no_fields), (''a'', no_fields\<lparr>x_position := Some 1\<rparr>), (''d'', no_fields)]"
  let ?s' = "no_schema\<lparr>properties := Some
        [(''c'', no_fields), (''d'', no_fields), (''a'', no_fields\<lparr>x_position := Some 1\<rparr>)]\<rparr>"
  have h: "mset ?es = mset (entries ?s)
      \<and> distinct (map (\<lambda>e. position_or_999 (snd e)) (entries ?s))"
    by (simp add: entries_def no_schema_def no_fields_def position_or_999_def)
  have h': "mset ?es' = mset (entries ?s')
      \<and> (\<forall>k. filter (\<lambda>e. position_or_999 (snd e) = k) ?es'
               = filter (\<lambda>e. position_or_999 (snd e) = k) (entries ?s'))"
    by (simp add: entries_def no_schema_def no_fields_def position_or_999_def)
  from insertion_order_irrelevant [of ?es ?s "[]"] h
  have 1: "ddl_sql [] (?s\<lparr>properties := Some ?es\<rparr>) = ddl_sql [] ?s" by blast
  from insertion_order_irrelevant [of ?es' ?s' "[]"] h'
  have 2: "ddl_sql [] (?s'\<lparr>properties := Some ?es'\<rparr>) = ddl_sql [] ?s'" by blast
  from 1 2 show ?thesis by (simp add: no_schema_def)
qed

text \<open>
  The claim as stated fails when two properties share a key: the stable sort keeps them in
  insertion order, so the two listings give different DDL.
\<close>

theorem insertion_order_counterexample:
  "mset [(''a'', no_fields), (''b'', no_fields)] = mset [(''b'', no_fields), (''a'', no_fields)]
   \<and> ddl_sql [] (no_schema\<lparr>properties := Some [(''a'', no_fields), (''b'', no_fields)]\<rparr>)
     \<noteq> ddl_sql [] (no_schema\<lparr>properties := Some [(''b'', no_fields), (''a'', no_fields)]\<rparr>)"
proof -
  have "mset [(''a'', no_fields), (''b'', no_fields)] = mset [(''b'', no_fields), (''a'', no_fields)]"
    by (simp add: add.commute)
  moreover have "ddl_sql [] (no_schema\<lparr>properties := Some [(''a'', no_fields), (''b'', no_fields)]\<rparr>)
     \<noteq> ddl_sql [] (no_schema\<lparr>properties := Some [(''b'', no_fields), (''a'', no_fields)]\<rparr>)"
    by code_simp
  ultimately show ?thesis by simp
qed

lemma mapM3TypeToSnowflake_x_position:
  "mapM3TypeToSnowflake (p\<lparr>x_position := v\<rparr>) = mapM3TypeToSnowflake p"
  by (simp add: mapM3TypeToSnowflake_def)

lemma position_or_999_explicit:
  "position_or_999 (p\<lparr>x_position := Some (position_or_999 p)\<rparr>) = position_or_999 p"
  by (simp add: position_or_999_def split: option.splits)

lemma entries_with_explicit_999:
  "entries (with_explicit_999 s)
     = map (\<lambda>e. (fst e, (snd e)\<lparr>x_position := Some (position_or_999 (snd e))\<rparr>)) (entries s)"
  by (simp add: with_explicit_999_def entries_def)

lemma sortedProps_with_explicit_999:
  "sortedProps (with_explicit_999 s)
     = map (\<lambda>e. (fst e, (snd e)\<lparr>x_position := Some (position_or_999 (snd e))\<rparr>)) (sortedProps s)"
  unfolding sortedProps_sort_key entries_with_explicit_999
  by (rule sort_key_map_entries) (simp add: position_or_999_explicit)

lemma with_explicit_999_fields:
  "title (with_explicit_999 s) = title s"
  "schema_description (with_explicit_999 s) = schema_description s"
  "required (with_explicit_999 s) = required s"
  by (simp_all add: with_explicit_999_def)

lemma columns_with_explicit_999: "columns (with_explicit_999 s) = columns s"
  by (simp add: columns_def sortedProps_with_explicit_999 column_line_def o_def Let_def
        required_names_def with_explicit_999_fields mapM3TypeToSnowflake_x_position)

lemma bronzeSelectLines_with_explicit_999:
  "bronzeSelectLines (with_explicit_999 s) = bronzeSelectLines s"
  by (simp add: bronzeSelectLines_def sortedProps_with_explicit_999 select_line_def o_def Let_def
        mapM3TypeToSnowflake_x_position)

text \<open>
  C10, as the code has it. A position of 0 is sorted as 999, as an absent one is: both
  generators give the same text when each falsy position is written out as 999. Such a
  property comes after every property whose position is not 0 and below 999, before every
  property whose position is above 999, and the properties whose position is falsy or 999
  stay in their insertion order.
\<close>

theorem falsy_position_is_999:
  "ddl_sql t (with_explicit_999 s) = ddl_sql t s
   \<and> silver_sql t (with_explicit_999 s) = silver_sql t s
   \<and> (\<forall>i j. i < length (sortedProps s) \<and> j < length (sortedProps s)
         \<and> x_position (snd (sortedProps s ! i)) \<in> {None, Some 0}
         \<and> (\<exists>n. x_position (snd (sortedProps s ! j)) = Some n \<and> n \<noteq> 0 \<and> n < 999)
         \<longrightarrow> j < i)
   \<and> (\<forall>i j. i < length (sortedProps s) \<and> j < length (sortedProps s)
         \<and> x_position (snd (sortedProps s ! i)) \<in> {None, Some 0}
         \<and> (\<exists>n. x_position (snd (sortedProps s ! j)) = Some n \<and> 999 < n)
         \<longrightarrow> i < j)
   \<and> filter (\<lambda>e. x_position (snd e) \<in> {None, Some 0, Some 999}) (sortedProps s)
       = filter (\<lambda>e. x_position (snd e) \<in> {None, Some 0, Some 999}) (entries s)"
proof (intro conjI allI impI)
  show "ddl_sql t (with_explicit_999 s) = ddl_sql t s"
    by (simp add: ddl_sql_def create_statement_def columns_with_explicit_999 table_name_def
          required_names_def with_explicit_999_fields)
next
  show "silver_sql t (with_explicit_999 s) = silver_sql t s"
    by (simp add: silver_sql_def bronzeSelectLines_with_explicit_999 table_name_def
          with_explicit_999_fields)
next
  fix i j
  let ?L = "sortedProps s"
  assume a: "i < length ?L \<and> j < length ?L
         \<and> x_position (snd (?L ! i)) \<in> {None, Some 0}
         \<and> (\<exists>n. x_position (snd (?L ! j)) = Some n \<and> n \<noteq> 0 \<and> n < 999)"
  then have ki: "position_or_999 (snd (?L ! i)) = 999"
    by (auto simp: position_or_999_def)
  from a have kj: "position_or_999 (snd (?L ! j)) < 999"
    by (auto simp: position_or_999_def)
  show "j < i"
  proof (rule ccontr)
    assume "\<not> j < i"
    then have "i \<le> j" by simp
    with a sorted_sortedProps [of s]
    have "map (\<lambda>e. position_or_999 (snd e)) ?L ! i \<le> map (\<lambda>e. position_or_999 (snd e)) ?L ! j"
      by (intro sorted_nth_mono) simp_all
    with a ki kj show False by simp
  qed
next
  fix i j
  let ?L = "sortedProps s"
  assume a: "i < length ?L \<and> j < length ?L
         \<and> x_position (snd (?L ! i)) \<in> {None, Some 0}
         \<and> (\<exists>n. x_position (snd (?L ! j)) = Some n \<and> 999 < n)"
  then have ki: "position_or_999 (snd (?L ! i)) = 999"
    by (auto simp: position_or_999_def)
  from a have kj: "999 < position_or_999 (snd (?L ! j))"
    by (auto simp: position_or_999_def)
  show "i < j"
  proof (rule ccontr)
    assume "\<not> i < j"
    then have "j \<le> i" by simp
    with a sorted_sortedProps [of s]
    have "map (\<lambda>e. position_or_999 (snd e)) ?L ! j \<le> map (\<lambda>e. position_or_999 (snd e)) ?L ! i"
      by (intro sorted_nth_mono) simp_all
    with a ki kj show False by simp
  qed
next
  have k: "(x_position p \<in> {None, Some 0, Some 999}) = (position_or_999 p = 999)" for p
    by (auto simp: position_or_999_def split: option.splits)
  show "filter (\<lambda>e. x_position (snd e) \<in> {None, Some 0, Some 999}) (sortedProps s)
       = filter (\<lambda>e. x_position (snd e) \<in> {None, Some 0, Some 999}) (entries s)"
    unfolding k sortedProps_sort_key by (rule sort_key_stable)
qed

theorem falsy_position_is_999_witness:
  "map fst (sortedProps
      (no_schema\<lparr>properties := Some
         [(''b'', no_fields\<lparr>x_position := Some 1000\<rparr>), (''a'', no_fields\<lparr>x_position := Some 0\<rparr>),
          (''d'', no_fields\<lparr>x_position := Some 999\<rparr>), (''c'', no_fields\<lparr>x_position := Some 998\<rparr>),
          (''e'', no_fields)]\<rparr>))
     = [''c'', ''a'', ''d'', ''e'', ''b'']
   \<and> ddl_sql []
       (with_explicit_999 (no_schema\<lparr>properties := Some
         [(''b'', no_fields\<lparr>x_position := Some 1000\<rparr>), (''a'', no_fields\<lparr>x_position := Some 0\<rparr>),
          (''d'', no_fields\<lparr>x_position := Some 999\<rparr>), (''c'', no_fields\<lparr>x_position := Some 998\<rparr>),
          (''e'', no_fields)]\<rparr>))
     = ddl_sql []
       (no_schema\<lparr>properties := Some
         [(''b'', no_fields\<lparr>x_position := Some 1000\<rparr>), (''a'', no_fields\<lparr>x_position := Some 0\<rparr>),
          (''d'', no_fields\<lparr>x_position := Some 999\<rparr>), (''c'', no_fields\<lparr>x_position := Some 998\<rparr>),
          (''e'', no_fields)]\<rparr>)
   \<and> (0::nat) < 1 \<and> (1::nat) < 4"
proof -
  let ?s = "no_schema\<lparr>properties := Some
         [(''b'', no_fields\<lparr>x_position := Some 1000\<rparr>), (''a'', no_fields\<lparr>x_position := Some 0\<rparr>),
          (''d'', no_fields\<lparr>x_position := Some 999\<rparr>), (''c'', no_fields\<lparr>x_position := Some 998\<rparr>),
          (''e'', no_fields)]\<rparr>"
  have L: "sortedProps ?s
      = [(''c'', no_fields\<lparr>x_position := Some 998\<rparr>), (''a'', no_fields\<lparr>x_position := Some 0\<rparr>),
         (''d'', no_fields\<lparr>x_position := Some 999\<rparr>), (''e'', no_fields),
         (''b'', no_fields\<lparr>x_position := Some 1000\<rparr>)]"
    by code_simp
  have below: "1 < length (sortedProps ?s) \<and> 0 < length (sortedProps ?s)
         \<and> x_position (snd (sortedProps ?s ! 1)) \<in> {None, Some 0}
         \<and> (\<exists>n. x_position (snd (sortedProps ?s ! 0)) = Some n \<and> n \<noteq> 0 \<and> n < 999)"
    unfolding L by (simp add: no_fields_def)
  have above: "1 < length (sortedProps ?s) \<and> 4 < length (sortedProps ?s)
         \<and> x_position (snd (sortedProps ?s ! 1)) \<in> {None, Some 0}
         \<and> (\<exists>n. x_position (snd (sortedProps ?s ! 4)) = Some n \<and> 999 < n)"
    unfolding L by (simp add: no_fields_def)
  from falsy_position_is_999 [of "[]" ?s] below above
  have "ddl_sql [] (with_explicit_999 ?s) = ddl_sql [] ?s \<and> (0::nat) < 1 \<and> (1::nat) < 4"
    by blast
  moreover have "map fst (sortedProps ?s) = [''c'', ''a'', ''d'', ''e'', ''b'']"
    unfolding L by simp
  ultimately show ?thesis by blast
qed

text \<open>
  The claim as stated fails for a positive position above 999: the property with position 0,
  sorted as 999, comes before it.
\<close>

theorem falsy_position_counterexample:
  "map fst (sortedProps
      (no_schema\<lparr>properties := Some
         [(''b'', no_fields\<lparr>x_position := Some 1000\<rparr>), (''a'', no_fields\<lparr>x_position := Some 0\<rparr>)]\<rparr>))
     = [''a'', ''b'']"
  by code_simp

section \<open>Layout of the DDL\<close>

text \<open>
  C1, as the code has it. The DDL is, in this order: the comment line naming the table,
  the comment line with the schema description (\<^verbatim>\<open>No description\<close> when it is absent or
  empty), the \<^verbatim>\<open>CREATE OR ALTER TABLE\<close> header, the column lines of the sorted properties
  joined by commas, the closing parenthesis, the two trailer lines when the description is
  present and not empty, and then only the primary-key comment block, if any. No semicolon
  terminates the statement: it ends with the parenthesis or with the quote that closes the
  \<^verbatim>\<open>COMMENT\<close> text.
\<close>

theorem ddl_layout:
  "ddl_sql t s
     = ''-- Table: '' @ table_name t s @ ''\<newline>''
       @ ''-- Description: ''
       @ (case schema_description s of
            None \<Rightarrow> ''No description''
          | Some d \<Rightarrow> if d = [] then ''No description'' else d)
       @ ''\<newline>''
       @ ''CREATE OR ALTER TABLE '' @ table_name t s @ '' (\<newline>''
       @ join '',\<newline>''
           (map (\<lambda>e. ''    '' @ fst e @ '' '' @ mapM3TypeToSnowflake (snd e)
                      @ (if fst e \<in> set (required_names s) then '' NOT NULL'' else [])
                      @ (case description (snd e) of
                           None \<Rightarrow> []
                         | Some d \<Rightarrow> if d = [] then [] else '' COMMENT '' @ quote @ d @ quote))
              (sortedProps s))
       @ ''\<newline>)''
       @ (case schema_description s of
            None \<Rightarrow> []
          | Some d \<Rightarrow>
              if d = [] then []
              else ''\<newline>CHANGE_TRACKING = TRUE\<newline>COMMENT = '' @ quote @ d @ quote)
       @ pk_block (table_name t s) (required_names s)
   \<and> ddl_sql t s = create_statement t s @ pk_block (table_name t s) (required_names s)
   \<and> last (create_statement t s) \<in> {CHR '')'', CHR 0x27}"
proof (intro conjI)
  have c: "column_line r = (\<lambda>e. ''    '' @ fst e @ '' '' @ mapM3TypeToSnowflake (snd e)
                      @ (if fst e \<in> set r then '' NOT NULL'' else [])
                      @ (case description (snd e) of
                           None \<Rightarrow> []
                         | Some d \<Rightarrow> if d = [] then [] else '' COMMENT '' @ quote @ d @ quote))"
    for r
    by (auto simp: column_line_def Let_def fun_eq_iff split: option.splits)
  show "ddl_sql t s
     = ''-- Table: '' @ table_name t s @ ''\<newline>''
       @ ''-- Description: ''
       @ (case schema_description s of
            None \<Rightarrow> ''No description''
          | Some d \<Rightarrow> if d = [] then ''No description'' else d)
       @ ''\<newline>''
       @ ''CREATE OR ALTER TABLE '' @ table_name t s @ '' (\<newline>''
       @ join '',\<newline>''
           (map (\<lambda>e. ''    '' @ fst e @ '' '' @ mapM3TypeToSnowflake (snd e)
                      @ (if fst e \<in> set (required_names s) then '' NOT NULL'' else [])
                      @ (case description (snd e) of
                           None \<Rightarrow> []
                         | Some d \<Rightarrow> if d = [] then [] else '' COMMENT '' @ quote @ d @ quote))
              (sortedProps s))
       @ ''\<newline>)''
       @ (case schema_description s of
            None \<Rightarrow> []
          | Some d \<Rightarrow>
              if d = [] then []
              else ''\<newline>CHANGE_TRACKING = TRUE\<newline>COMMENT = '' @ quote @ d @ quote)
       @ pk_block (table_name t s) (required_names s)"
    unfolding ddl_sql_def create_statement_def columns_def c
    by (simp add: Let_def description_trailer_def split: option.splits)
next
  show "ddl_sql t s = create_statement t s @ pk_block (table_name t s) (required_names s)"
    by (simp add: ddl_sql_def)
next
  show "last (create_statement t s) \<in> {CHR '')'', CHR 0x27}"
    by (simp add: create_statement_def description_trailer_def Let_def split: option.splits)
qed

theorem ddl_layout_witness:
  "ddl_sql [] example_schema
     = ''-- Table: SUPPLIER\<newline>-- Description: Supplier master data\<newline>''
       @ ''CREATE OR ALTER TABLE SUPPLIER (\<newline>''
       @ ''    CONO INTEGER NOT NULL COMMENT '' @ quote @ ''company'' @ quote @ '',\<newline>''
       @ ''    SUNO STRING NOT NULL COMMENT '' @ quote @ ''supplier'' @ quote @ '',\<newline>''
       @ ''    SUNM STRING COMMENT '' @ quote @ ''supplier name'' @ quote @ '',\<newline>''
       @ ''    variationNumber INTEGER NOT NULL COMMENT '' @ quote
       @ ''record modification sequence'' @ quote @ '',\<newline>''
       @ ''    timestamp DATETIME NOT NULL COMMENT '' @ quote @ ''record modification time'' @ quote
       @ '',\<newline>''
       @ ''    deleted BOOLEAN NOT NULL COMMENT '' @ quote @ ''is record deleted'' @ quote
       @ ''\<newline>)\<newline>CHANGE_TRACKING = TRUE\<newline>COMMENT = '' @ quote @ ''Supplier master data'' @ quote
       @ ''\<newline>\<newline>-- Primary key:\<newline>''
       @ ''-- ALTER TABLE SUPPLIER ADD PRIMARY KEY (CONO, SUNO, variationNumber, timestamp, deleted);\<newline>''"
proof -
  have "ddl_sql [] example_schema
      = create_statement [] example_schema
        @ pk_block (table_name [] example_schema) (required_names example_schema)"
    using ddl_layout [of "[]" example_schema] by blast
  also have "\<dots>
     = ''-- Table: SUPPLIER\<newline>-- Description: Supplier master data\<newline>''
       @ ''CREATE OR ALTER TABLE SUPPLIER (\<newline>''
       @ ''    CONO INTEGER NOT NULL COMMENT '' @ quote @ ''company'' @ quote @ '',\<newline>''
       @ ''    SUNO STRING NOT NULL COMMENT '' @ quote @ ''supplier'' @ quote @ '',\<newline>''
       @ ''    SUNM STRING COMMENT '' @ quote @ ''supplier name'' @ quote @ '',\<newline>''
       @ ''    variationNumber INTEGER NOT NULL COMMENT '' @ quote
       @ ''record modification sequence'' @ quote @ '',\<newline>''
       @ ''    timestamp DATETIME NOT NULL COMMENT '' @ quote @ ''record modification time'' @ quote
       @ '',\<newline>''
       @ ''    deleted BOOLEAN NOT NULL COMMENT '' @ quote @ ''is record deleted'' @ quote
       @ ''\<newline>)\<newline>CHANGE_TRACKING = TRUE\<newline>COMMENT = '' @ quote @ ''Supplier master data'' @ quote
       @ ''\<newline>\<newline>-- Primary key:\<newline>''
       @ ''-- ALTER TABLE SUPPLIER ADD PRIMARY KEY (CONO, SUNO, variationNumber, timestamp, deleted);\<newline>''"
    by code_simp
  finally show ?thesis .
qed

text \<open>
  The claim as stated fails on a schema with one string column: the output stops at the
  closing parenthesis (after the \<^verbatim>\<open>COMMENT\<close> line when there is a description) and contains
  no semicolon at all.
\<close>

theorem ddl_terminator_counterexample:
  "ddl_sql []
     (no_schema\<lparr>title := Some ''Supplier'',
        properties := Some [(''SUNM'', no_fields\<lparr>ptype := Some ''string''\<rparr>)]\<rparr>)
     = ''-- Table: SUPPLIER\<newline>-- Description: No description\<newline>''
       @ ''CREATE OR ALTER TABLE SUPPLIER (\<newline>    SUNM STRING\<newline>)''
   \<and> ddl_sql []
     (no_schema\<lparr>title := Some ''Supplier'', schema_description := Some ''Supplier master data'',
        properties := Some [(''SUNM'', no_fields\<lparr>ptype := Some ''string''\<rparr>)]\<rparr>)
     = ''-- Table: SUPPLIER\<newline>-- Description: Supplier master data\<newline>''
       @ ''CREATE OR ALTER TABLE SUPPLIER (\<newline>    SUNM STRING\<newline>)''
       @ ''\<newline>CHANGE_TRACKING = TRUE\<newline>COMMENT = '' @ quote @ ''Supplier master data'' @ quote
   \<and> CHR '';'' \<notin> set (ddl_sql []
     (no_schema\<lparr>title := Some ''Supplier'', schema_description := Some ''Supplier master data'',
        properties := Some [(''SUNM'', no_fields\<lparr>ptype := Some ''string''\<rparr>)]\<rparr>))"
  by code_simp

section \<open>Primary-key suggestion\<close>

lemma split_sep_append: "split c (xs @ c # ys) = split c xs @ split c ys"
proof (induction xs)
  case Nil
  show ?case by simp
next
  case (Cons x xs)
  then show ?case
    using split_ne [of c xs] by (cases "split c xs") auto
qed

lemma set_join: "set (join sep xs) \<subseteq> set sep \<union> \<Union> (set ` set xs)"
  by (induction sep xs rule: join.induct) auto

lemma split_line: "c \<notin> set l \<Longrightarrow> split c (l @ c # rest) = l # split c rest"
  by (simp add: split_sep_append split_not_in)

lemma pk_block_lines:
  assumes "pkCandidates req \<noteq> []"
    and "CHR 0x0A \<notin> set table" "\<forall>r\<in>set (pkCandidates req). CHR 0x0A \<notin> set r"
  shows "split (CHR 0x0A) (pk_block table req)
     = [] # [] # [''-- Primary key:'',
        ''-- ALTER TABLE '' @ table @ '' ADD PRIMARY KEY ('' @ join '', '' (pkCandidates req) @ '');'',
        []]"
proof -
  define l where
    "l = ''-- ALTER TABLE '' @ table @ '' ADD PRIMARY KEY ('' @ join '', '' (pkCandidates req) @ '');''"
  define h where "h = ''-- Primary key:''"
  have "CHR 0x0A \<notin> set (join '', '' (pkCandidates req))"
    using set_join [of "'', ''" "pkCandidates req"] assms(3) by auto
  with assms(2) have nl: "CHR 0x0A \<notin> set l" by (simp add: l_def)
  have nh: "CHR 0x0A \<notin> set h" by (simp add: h_def)
  have "pk_block table req = CHR 0x0A # CHR 0x0A # (h @ CHR 0x0A # (l @ CHR 0x0A # []))"
    using assms(1) by (simp add: pk_block_def l_def h_def)
  then have "split (CHR 0x0A) (pk_block table req)
      = [] # [] # split (CHR 0x0A) (h @ CHR 0x0A # (l @ CHR 0x0A # []))"
    by (simp only: split.simps refl if_True)
  also have "split (CHR 0x0A) (h @ CHR 0x0A # (l @ CHR 0x0A # []))
      = h # split (CHR 0x0A) (l @ CHR 0x0A # [])"
    using nh by (rule split_line)
  also have "split (CHR 0x0A) (l @ CHR 0x0A # []) = l # split (CHR 0x0A) []"
    using nl by (rule split_line)
  finally show ?thesis by (simp only: split.simps l_def h_def)
qed

text \<open>
  C7, as the code has it. The primary-key block ends the DDL. It is there exactly when
  some entry of \<^verbatim>\<open>schema.required\<close> is on the allow-list or contains \<^verbatim>\<open>id\<close> once
  lower-cased, whether or not the schema has a property of that name: the block is
  computed from the table name and \<^verbatim>\<open>required\<close> alone. It lists those entries in their
  order in \<^verbatim>\<open>required\<close>, and it consists of a heading comment and the \<^verbatim>\<open>ALTER TABLE\<close>
  text written behind the comment marker \<^verbatim>\<open>--\<close>. When the table name and the entries of
  \<^verbatim>\<open>required\<close> have no line break, every line of the block is empty or a comment.
\<close>

theorem primary_key_comment:
  "ddl_sql t s
     = create_statement t s
       @ pk_block (table_name t s) (case required s of None \<Rightarrow> [] | Some r \<Rightarrow> r)
   \<and> ddl_sql t (s\<lparr>properties := ps\<rparr>)
     = create_statement t (s\<lparr>properties := ps\<rparr>)
       @ pk_block (table_name t s) (case required s of None \<Rightarrow> [] | Some r \<Rightarrow> r)
   \<and> (pk_block table req \<noteq> []
        \<longleftrightarrow> (\<exists>r\<in>set req. r \<in> {''CONO'', ''SUNO'', ''variationNumber'', ''timestamp'', ''deleted''}
                             \<or> js_includes (toLowerCase r) ''id''))
   \<and> pkCandidates req
       = filter (\<lambda>r. r \<in> {''CONO'', ''SUNO'', ''variationNumber'', ''timestamp'', ''deleted''}
                       \<or> js_includes (toLowerCase r) ''id'') req
   \<and> (pk_block table req \<noteq> []
        \<longrightarrow> pk_block table req
            = ''\<newline>\<newline>-- Primary key:\<newline>-- ALTER TABLE '' @ table @ '' ADD PRIMARY KEY (''
              @ join '', '' (pkCandidates req) @ '');\<newline>'')
   \<and> (CHR 0x0A \<notin> set table \<and> (\<forall>r\<in>set req. CHR 0x0A \<notin> set r)
        \<longrightarrow> (\<forall>line\<in>set (split (CHR 0x0A) (pk_block table req)). line = [] \<or> take 2 line = ''--''))"
proof (intro conjI impI)
  show "ddl_sql t s
     = create_statement t s
       @ pk_block (table_name t s) (case required s of None \<Rightarrow> [] | Some r \<Rightarrow> r)"
    by (simp add: ddl_sql_def required_names_def)
next
  show "ddl_sql t (s\<lparr>properties := ps\<rparr>)
     = create_statement t (s\<lparr>properties := ps\<rparr>)
       @ pk_block (table_name t s) (case required s of None \<Rightarrow> [] | Some r \<Rightarrow> r)"
    by (simp add: ddl_sql_def required_names_def table_name_def)
next
  show "pk_block table req \<noteq> []
        \<longleftrightarrow> (\<exists>r\<in>set req. r \<in> {''CONO'', ''SUNO'', ''variationNumber'', ''timestamp'', ''deleted''}
                             \<or> js_includes (toLowerCase r) ''id'')"
    by (auto simp: pk_block_def pkCandidates_def is_pk_candidate_def filter_empty_conv)
next
  show "pkCandidates req
       = filter (\<lambda>r. r \<in> {''CONO'', ''SUNO'', ''variationNumber'', ''timestamp'', ''deleted''}
                       \<or> js_includes (toLowerCase r) ''id'') req"
    by (simp add: pkCandidates_def is_pk_candidate_def [abs_def])
next
  assume "pk_block table req \<noteq> []"
  then show "pk_block table req
            = ''\<newline>\<newline>-- Primary key:\<newline>-- ALTER TABLE '' @ table @ '' ADD PRIMARY KEY (''
              @ join '', '' (pkCandidates req) @ '');\<newline>''"
    by (simp add: pk_block_def split: if_splits)
next
  assume a: "CHR 0x0A \<notin> set table \<and> (\<forall>r\<in>set req. CHR 0x0A \<notin> set r)"
  show "\<forall>line\<in>set (split (CHR 0x0A) (pk_block table req)). line = [] \<or> take 2 line = ''--''"
  proof (cases "pkCandidates req = []")
    case True
    then show ?thesis by (simp add: pk_block_def)
  next
    case False
    moreover from a have "\<forall>r\<in>set (pkCandidates req). CHR 0x0A \<notin> set r"
      by (simp add: pkCandidates_def)
    ultimately have "split (CHR 0x0A) (pk_block table req)
     = [] # [] # [''-- Primary key:'',
        ''-- ALTER TABLE '' @ table @ '' ADD PRIMARY KEY ('' @ join '', '' (pkCandidates req) @ '');'',
        []]"
      using a by (intro pk_block_lines) simp_all
    then show ?thesis by simp
  qed
qed

theorem primary_key_comment_witness:
  "ddl_sql []
     (no_schema\<lparr>title := Some ''T'',
        properties := Some
          [(''deleted'', no_fields\<lparr>ptype := Some ''boolean'', x_position := Some 3\<rparr>),
           (''orderId'', no_fields\<lparr>ptype := Some ''integer'', x_position := Some 2\<rparr>),
           (''CONO'', no_fields\<lparr>ptype := Some ''integer'', x_position := Some 1\<rparr>)],
        required := Some [''name'', ''deleted'', ''orderId'', ''CONO'']\<rparr>)
     = ''-- Table: T\<newline>-- Description: No description\<newline>CREATE OR ALTER TABLE T (\<newline>''
       @ ''    CONO INTEGER NOT NULL,\<newline>    orderId INTEGER NOT NULL,\<newline>''
       @ ''    deleted BOOLEAN NOT NULL\<newline>)''
       @ ''\<newline>\<newline>-- Primary key:\<newline>-- ALTER TABLE T ADD PRIMARY KEY (deleted, orderId, CONO);\<newline>''
   \<and> split (CHR 0x0A) (pk_block ''T'' [''name'', ''deleted'', ''orderId'', ''CONO''])
     = [] # [] # [''-- Primary key:'', ''-- ALTER TABLE T ADD PRIMARY KEY (deleted, orderId, CONO);'', []]
   \<and> list_all (\<lambda>line. line = [] \<or> take 2 line = ''--'')
         (split (CHR 0x0A) (pk_block ''T'' [''name'', ''deleted'', ''orderId'', ''CONO'']))
   \<and> pk_block ''T'' [''name'', ''cono''] = []"
proof -
  let ?req = "[''name'', ''deleted'', ''orderId'', ''CONO'']"
  let ?ps = "Some
          [(''deleted'', no_fields\<lparr>ptype := Some ''boolean'', x_position := Some 3\<rparr>),
           (''orderId'', no_fields\<lparr>ptype := Some ''integer'', x_position := Some 2\<rparr>),
           (''CONO'', no_fields\<lparr>ptype := Some ''integer'', x_position := Some 1\<rparr>)]"
  let ?s = "no_schema\<lparr>title := Some ''T'', properties := ?ps, required := Some ?req\<rparr>"
  have c: "pkCandidates ?req = [''deleted'', ''orderId'', ''CONO'']"
    by code_simp
  have e: "\<exists>r\<in>set ?req. r \<in> {''CONO'', ''SUNO'', ''variationNumber'', ''timestamp'', ''deleted''}
                             \<or> js_includes (toLowerCase r) ''id''"
    by code_simp
  have n: "CHR 0x0A \<notin> set ''T'' \<and> (\<forall>r\<in>set ?req. CHR 0x0A \<notin> set r)"
    by simp
  have ne: "\<not> (\<exists>r\<in>set [''name'', ''cono'']. r \<in> {''CONO'', ''SUNO'', ''variationNumber'', ''timestamp'', ''deleted''}
                             \<or> js_includes (toLowerCase r) ''id'')"
    by code_simp
  have t: "table_name [] ?s = ''T''"
    by code_simp
  have st: "create_statement [] ?s
      = ''-- Table: T\<newline>-- Description: No description\<newline>CREATE OR ALTER TABLE T (\<newline>''
       @ ''    CONO INTEGER NOT NULL,\<newline>    orderId INTEGER NOT NULL,\<newline>''
       @ ''    deleted BOOLEAN NOT NULL\<newline>)''"
    by code_simp
  have r: "(case required ?s of None \<Rightarrow> [] | Some r \<Rightarrow> r) = ?req"
    by (simp add: no_schema_def)
  from primary_key_comment [of "[]" ?s] have 0: "ddl_sql [] ?s = create_statement [] ?s @ pk_block ''T'' ?req"
    unfolding t r by blast
  from primary_key_comment [of "[]" no_schema None "''T''" ?req] e
  have 1: "pk_block ''T'' ?req
      = ''\<newline>\<newline>-- Primary key:\<newline>-- ALTER TABLE '' @ ''T'' @ '' ADD PRIMARY KEY (''
              @ join '', '' (pkCandidates ?req) @ '');\<newline>''"
    by blast
  from primary_key_comment [of "[]" no_schema None "''T''" "[''name'', ''cono'']"] ne
  have 2: "pk_block ''T'' [''name'', ''cono''] = []"
    by blast
  have 3: "split (CHR 0x0A) (pk_block ''T'' ?req)
     = [] # [] # [''-- Primary key:'', ''-- ALTER TABLE T ADD PRIMARY KEY (deleted, orderId, CONO);'', []]"
    unfolding 1 c by code_simp
  from primary_key_comment [of "[]" no_schema None "''T''" ?req] n
  have "\<forall>line\<in>set (split (CHR 0x0A) (pk_block ''T'' ?req)). line = [] \<or> take 2 line = ''--''"
    by blast
  then have 4: "list_all (\<lambda>line. line = [] \<or> take 2 line = ''--'')
      (split (CHR 0x0A) (pk_block ''T'' ?req))"
    by (simp only: list_all_iff)
  have 5: "ddl_sql [] ?s
     = ''-- Table: T\<newline>-- Description: No description\<newline>CREATE OR ALTER TABLE T (\<newline>''
       @ ''    CONO INTEGER NOT NULL,\<newline>    orderId INTEGER NOT NULL,\<newline>''
       @ ''    deleted BOOLEAN NOT NULL\<newline>)''
       @ ''\<newline>\<newline>-- Primary key:\<newline>-- ALTER TABLE T ADD PRIMARY KEY (deleted, orderId, CONO);\<newline>''"
    unfolding 0 st 1 c by simp
  from 2 3 4 5 show ?thesis by blast
qed

text \<open>
  The claim as stated fails on a schema that has no property at all but lists
  \<^verbatim>\<open>ghost_ID\<close> in \<^verbatim>\<open>required\<close>: no column exists, and the block is printed. And an entry
  of \<^verbatim>\<open>required\<close> with a line break carries the rest of its text out of the comment.
\<close>

theorem primary_key_counterexample:
  "entries (no_schema\<lparr>required := Some [''ghost_ID'']\<rparr>) = []
   \<and> columns (no_schema\<lparr>required := Some [''ghost_ID'']\<rparr>) = []
   \<and> ddl_sql [] (no_schema\<lparr>required := Some [''ghost_ID'']\<rparr>)
     = ''-- Table: UNKNOWN_TABLE\<newline>-- Description: No description\<newline>''
       @ ''CREATE OR ALTER TABLE UNKNOWN_TABLE (\<newline>\<newline>)''
       @ ''\<newline>\<newline>-- Primary key:\<newline>-- ALTER TABLE UNKNOWN_TABLE ADD PRIMARY KEY (ghost_ID);\<newline>''
   \<and> split (CHR 0x0A) (pk_block ''T'' [''id\<newline>DROP TABLE T''])
     = [] # [] # [''-- Primary key:'', ''-- ALTER TABLE T ADD PRIMARY KEY (id'', ''DROP TABLE T);'', []]"
  by code_simp

section \<open>Parse failures and the Silver generator\<close>

text \<open>
  C8. When \<^verbatim>\<open>JSON.parse\<close> throws on the input text, \<^verbatim>\<open>convertToSnowflake\<close> sets the error to
  \<^verbatim>\<open>Error parsing JSON: \<close> followed by the parser's message and sets the DDL output to the
  empty string, whatever it was before; nothing else changes.
\<close>

theorem parse_failure_clears_output:
  "JSON_parse (jsonInput st) = Inl message \<Longrightarrow>
     convertToSnowflake JSON_parse st
       = st\<lparr>sqlOutput := [], error := ''Error parsing JSON: '' @ message\<rparr>
     \<and> sqlOutput (convertToSnowflake JSON_parse st) = []
     \<and> error (convertToSnowflake JSON_parse st) = ''Error parsing JSON: '' @ message"
  by (simp add: convertToSnowflake_def)

theorem parse_failure_clears_output_witness:
  "sqlOutput
     (convertToSnowflake (\<lambda>text. Inl ''Unexpected end of JSON input'')
        \<lparr>jsonInput = ''{'', sqlOutput = ''-- Table: OLD'', tableName = [], error = [],
         silverSql = []\<rparr>) = []
   \<and> error
     (convertToSnowflake (\<lambda>text. Inl ''Unexpected end of JSON input'')
        \<lparr>jsonInput = ''{'', sqlOutput = ''-- Table: OLD'', tableName = [], error = [],
         silverSql = []\<rparr>) = ''Error parsing JSON: Unexpected end of JSON input''"
proof -
  let ?st = "\<lparr>jsonInput = ''{'', sqlOutput = ''-- Table: OLD'', tableName = [], error = [],
         silverSql = []\<rparr>"
  let ?P = "\<lambda>text :: string. (Inl ''Unexpected end of JSON input'' :: string + schema)"
  have h: "?P (jsonInput ?st) = Inl ''Unexpected end of JSON input''" by simp
  from parse_failure_clears_output [OF h] show ?thesis by simp
qed



end
